theory Spec2Isabelle
  imports Main
begin

section \<open>Data model of package nagios\<close>

text \<open>
  Exit codes and state labels of a Nagios plugin (the two \<open>const\<close> blocks at the top of
  nagios.go). Go's \<open>int\<close> is modelled as \<open>int\<close>: the package never does arithmetic on an
  exit code, it only stores it and hands it to \<open>os.Exit\<close>.
\<close>

definition StateOKExitCode :: int where "StateOKExitCode = 0"
definition StateWARNINGExitCode :: int where "StateWARNINGExitCode = 1"
definition StateCRITICALExitCode :: int where "StateCRITICALExitCode = 2"
definition StateUNKNOWNExitCode :: int where "StateUNKNOWNExitCode = 3"
definition StateDEPENDENTExitCode :: int where "StateDEPENDENTExitCode = 4"

definition StateCRITICALLabel :: string where "StateCRITICALLabel = ''CRITICAL''"

text \<open>\<open>CheckOutputEOL\<close>: a space followed by a line feed.\<close>

definition CheckOutputEOL :: string where
  "CheckOutputEOL = [CHR '' '', CHR 0x0A]"

subsection \<open>Errors\<close>

text \<open>
  The values that can sit behind Go's \<open>error\<close> interface in this package: the four
  sentinels created with \<open>errors.New\<close> (compared by identity, hence one constructor each),
  an error of the client's own (\<open>errorString\<close>, by its message), and the wrapper that
  \<open>fmt.Errorf\<close> builds for a format with the \<open>%w\<close> verb (its message and the error it
  wraps). An \<open>error\<close> interface value may also be \<open>nil\<close>, which is \<open>None\<close>.
\<close>

datatype error_value =
    ErrPanicDetected
  | ErrPerformanceDataMissingLabel
  | ErrPerformanceDataMissingValue
  | ErrNoPerformanceDataProvided
  | errorString string
  | wrapError string error_value

type_synonym error = "error_value option"

text \<open>The \<open>Error()\<close> method: the message of an error.\<close>

fun Error :: "error_value \<Rightarrow> string" where
  "Error ErrPanicDetected = ''plugin crash/panic detected''"
| "Error ErrPerformanceDataMissingLabel = ''provided performance data missing required label''"
| "Error ErrPerformanceDataMissingValue = ''provided performance data missing required value''"
| "Error ErrNoPerformanceDataProvided = ''no performance data provided''"
| "Error (errorString s) = s"
| "Error (wrapError msg e) = msg"

text \<open>
  \<open>errors.Is(err, target)\<close>: \<open>target\<close> is \<open>err\<close> itself or is reached from it by
  unwrapping.
\<close>

fun errors_Is :: "error_value \<Rightarrow> error_value \<Rightarrow> bool" where
  "errors_Is (wrapError msg e) target = (wrapError msg e = target \<or> errors_Is e target)"
| "errors_Is e target = (e = target)"

text \<open>
  \<open>fmt.Errorf("%w: %s", e, v)\<close>, where \<open>s\<close> is the rendering of the operand \<open>v\<close> under
  the \<open>%s\<close> verb: the result wraps \<open>e\<close>, and its message is the message of \<open>e\<close>, a
  colon, a space and \<open>s\<close>.
\<close>

definition Errorf_w_s :: "error_value \<Rightarrow> string \<Rightarrow> error_value" where
  "Errorf_w_s e s = wrapError (Error e @ '': '' @ s) e"

subsection \<open>PerformanceData and ExitState\<close>

text \<open>
  The fields \<open>Min\<close> and \<open>Max\<close> of \<open>PerformanceData\<close> are named \<open>Min_pd\<close> and \<open>Max_pd\<close>
  here, since HOL already has constants of those names.
\<close>

record PerformanceData =
  Label :: string
  Value :: string
  UnitOfMeasurement :: string
  Warn :: string
  Crit :: string
  Min_pd :: string
  Max_pd :: string

text \<open>
  \<open>ExitState\<close>, field by field. \<open>BrandingCallback\<close> is a function value that may be
  \<open>nil\<close>.
\<close>

record ExitState =
  LastError :: error
  Errors :: "error list"
  ExitStatusCode :: int
  ServiceOutput :: string
  LongServiceOutput :: string
  perfData :: "PerformanceData list"
  WarningThreshold :: string
  CriticalThreshold :: string
  thresholdsLabel :: string
  errorsLabel :: string
  detailedInfoLabel :: string
  hideThresholdsSection :: bool
  hideErrorsSection :: bool
  BrandingCallback :: "(unit \<Rightarrow> string) option"

section \<open>Validation and the mutators\<close>

text \<open>
  \<open>PerformanceData.Validate\<close>: a method on a value receiver that returns an \<open>error\<close>; the
  \<open>switch\<close> takes the first case that holds.
\<close>

definition Validate :: "PerformanceData \<Rightarrow> error" where
  "Validate pd =
     (if Label pd = [] then Some ErrPerformanceDataMissingLabel
      else if Value pd = [] then Some ErrPerformanceDataMissingValue
      else None)"

text \<open>
  The loop \<open>for i := range pd\<close> of \<open>AddPerfData\<close>: it returns the error of the first
  element whose validation fails, and falls through (\<open>None\<close>) when there is none.
\<close>

fun validate_range :: "PerformanceData list \<Rightarrow> error" where
  "validate_range [] = None"
| "validate_range (p # ps) =
     (case Validate p of
        Some err \<Rightarrow> Some err
      | None \<Rightarrow> validate_range ps)"

text \<open>
  \<open>AddPerfData\<close>: the receiver is a pointer, so the model returns the error together
  with the state after the call.
\<close>

definition AddPerfData :: "ExitState \<Rightarrow> bool \<Rightarrow> PerformanceData list \<Rightarrow> error \<times> ExitState" where
  "AddPerfData es skipValidate pd =
     (if length pd = 0 then (Some ErrNoPerformanceDataProvided, es)
      else
        (case (if \<not> skipValidate then validate_range pd else None) of
           Some err \<Rightarrow> (Some err, es)
         | None \<Rightarrow> (None, es\<lparr>perfData := perfData es @ pd\<rparr>)))"

text \<open>\<open>AddError\<close>: appends the variadic arguments to \<open>Errors\<close>.\<close>

definition AddError :: "ExitState \<Rightarrow> error list \<Rightarrow> ExitState" where
  "AddError es err = es\<lparr>Errors := Errors es @ err\<rparr>"

section \<open>Formatted printing with an empty operand list\<close>

text \<open>
  \<open>ReturnCheckResults\<close> writes the summary line with \<open>fmt.Fprintf(&output,
  es.ServiceOutput)\<close>: the field is the format string and there are no operands. What
  that call writes is fixed by \<open>doPrintf\<close> of Go's package fmt; this section follows it
  for an operand list of length 0. Strings are sequences of bytes, as Go's are, and a
  position \<open>i\<close> in the format is kept as the rest of the format from \<open>i\<close> on.
\<close>

definition percentBangString :: string where "percentBangString = ''%!''"
definition missingString :: string where "missingString = ''(MISSING)''"
definition badIndexString :: string where "badIndexString = ''(BADINDEX)''"
definition noVerbString :: string where "noVerbString = ''%!(NOVERB)''"
definition badWidthString :: string where "badWidthString = ''%!(BADWIDTH)''"
definition badPrecString :: string where "badPrecString = ''%!(BADPREC)''"

definition byte :: "char \<Rightarrow> nat" where
  "byte c = of_char c"

definition is_flag :: "char \<Rightarrow> bool" where
  "is_flag c = (c = CHR ''#'' \<or> c = CHR ''0'' \<or> c = CHR ''+'' \<or> c = CHR ''-'' \<or> c = CHR '' '')"

definition is_digit :: "char \<Rightarrow> bool" where
  "is_digit c = (byte (CHR ''0'') \<le> byte c \<and> byte c \<le> byte (CHR ''9''))"

definition tooLarge :: "nat \<Rightarrow> bool" where
  "tooLarge x = (x > 1000000)"

text \<open>
  \<open>parsenum(s, start, end)\<close> on the bytes from \<open>start\<close> up to \<open>end\<close>: the number read,
  whether a digit was read, and what is left before \<open>end\<close>. A number that grows past
  \<open>tooLarge\<close> gives up and moves to \<open>end\<close>.
\<close>

fun parsenum_loop :: "nat \<Rightarrow> bool \<Rightarrow> string \<Rightarrow> nat \<times> bool \<times> string" where
  "parsenum_loop num isnum [] = (num, isnum, [])"
| "parsenum_loop num isnum (c # cs) =
     (if is_digit c then
        (if tooLarge num then (0, False, [])
         else parsenum_loop (num * 10 + (byte c - byte (CHR ''0''))) True cs)
      else (num, isnum, c # cs))"

definition parsenum :: "string \<Rightarrow> nat \<times> bool \<times> string" where
  "parsenum s = parsenum_loop 0 False s"

text \<open>
  \<open>parseArgNumber(format)\<close>, called on a format that starts with \<open>[\<close>: the width of the
  bracketed index and whether it is well formed (\<open>[n]\<close> with \<open>n\<close> a number). The index
  itself is not returned: with no operand, no index is in range.
\<close>

definition parseArgNumber :: "string \<Rightarrow> nat \<times> bool" where
  "parseArgNumber format =
     (if length format < 3 then (1, False)
      else
        (let inner = takeWhile (\<lambda>c. c \<noteq> CHR '']'') (tl format) in
         if length inner = length (tl format) then (1, False)
         else
           (case parsenum inner of
              (width, ok, rest) \<Rightarrow>
                if \<not> ok \<or> rest \<noteq> [] then (length inner + 2, False)
                else (length inner + 2, True))))"

text \<open>
  \<open>argNumber\<close> with \<open>numArgs = 0\<close>: the rest of the format after an index, whether an
  index was found, and whether \<open>goodArgNum\<close> was cleared (it is whenever the format has
  a bracket here, since no index is below \<open>numArgs\<close>).
\<close>

definition argNumber :: "string \<Rightarrow> string \<times> bool \<times> bool" where
  "argNumber format =
     (case format of
        [] \<Rightarrow> (format, False, False)
      | c # cs \<Rightarrow>
          if c \<noteq> CHR ''['' then (format, False, False)
          else (case parseArgNumber format of (wid, ok) \<Rightarrow> (drop wid format, ok, True)))"

text \<open>
  The verb is a rune. For a byte that is not ASCII, the table \<open>first\<close> of package utf8
  gives the length of the encoding it leads and the range the second byte must lie in
  (\<open>None\<close>: not a leading byte).
\<close>

definition first :: "char \<Rightarrow> (nat \<times> nat \<times> nat) option" where
  "first c =
     (let b = byte c in
      if 0xC2 \<le> b \<and> b \<le> 0xDF then Some (2, 0x80, 0xBF)
      else if b = 0xE0 then Some (3, 0xA0, 0xBF)
      else if 0xE1 \<le> b \<and> b \<le> 0xEC then Some (3, 0x80, 0xBF)
      else if b = 0xED then Some (3, 0x80, 0x9F)
      else if 0xEE \<le> b \<and> b \<le> 0xEF then Some (3, 0x80, 0xBF)
      else if b = 0xF0 then Some (4, 0x90, 0xBF)
      else if 0xF1 \<le> b \<and> b \<le> 0xF3 then Some (4, 0x80, 0xBF)
      else if b = 0xF4 then Some (4, 0x80, 0x8F)
      else None)"

definition continuation :: "char \<Rightarrow> bool" where
  "continuation c = (0x80 \<le> byte c \<and> byte c \<le> 0xBF)"

text \<open>
  \<open>utf8.DecodeRuneInString\<close> on a string whose first byte, if any, is not ASCII:
  whether the head of the string is a valid encoding, and the width consumed. Where the
  result is \<open>False\<close> the rune returned is \<open>RuneError\<close>, of width 0 on the empty string
  and 1 otherwise.
\<close>

definition DecodeRuneInString :: "string \<Rightarrow> bool \<times> nat" where
  "DecodeRuneInString s =
     (case s of
        [] \<Rightarrow> (False, 0)
      | s0 # _ \<Rightarrow>
          (case first s0 of
             None \<Rightarrow> (False, 1)
           | Some (sz, lo, hi) \<Rightarrow>
               if length s < sz then (False, 1)
               else if byte (s ! 1) < lo \<or> hi < byte (s ! 1) then (False, 1)
               else if sz \<le> 2 then (True, 2)
               else if \<not> continuation (s ! 2) then (False, 1)
               else if sz \<le> 3 then (True, 3)
               else if \<not> continuation (s ! 3) then (False, 1)
               else (True, 4)))"

text \<open>\<open>RuneError\<close> (U+FFFD) as \<open>writeRune\<close> encodes it.\<close>

definition RuneError :: string where
  "RuneError = [CHR 0xEF, CHR 0xBF, CHR 0xBD]"

text \<open>
  Reading the verb at the head of a format (called where \<open>i < end\<close>): the bytes
  \<open>writeRune(verb)\<close> writes, and the rest of the format. A byte below \<open>utf8.RuneSelf\<close>
  is the verb itself; a valid encoding is written back as the bytes it was read from.
\<close>

definition read_verb :: "string \<Rightarrow> string \<times> string" where
  "read_verb format =
     (case format of
        [] \<Rightarrow> ([], [])
      | c # cs \<Rightarrow>
          if byte c < 0x80 then ([c], cs)
          else
            (case DecodeRuneInString format of
               (valid, sz) \<Rightarrow>
                 (if valid then take sz format else RuneError, drop sz format)))"

text \<open>
  The state of one pass of the body of \<open>formatLoop\<close> after a \<open>%\<close>: what the pass has
  written to the printer's buffer, the printer's flag \<open>goodArgNum\<close>, the rest of the
  format from position \<open>i\<close> on, and \<open>afterIndex\<close>. The operand counter \<open>argNum\<close>
  stays 0 throughout: no index is in range and \<open>intFromArg\<close> consumes nothing.
\<close>

record pass =
  buf :: string
  goodArgNum :: bool
  rest :: string
  afterIndex :: bool

text \<open>
  The flags loop \<open>simpleFormat\<close>: flags are skipped. With no operand the fast path
  for simple verbs (\<open>argNum < len(a)\<close>) is never taken, and the flags themselves only
  matter for printing an operand.
\<close>

definition skip_flags :: "pass \<Rightarrow> pass" where
  "skip_flags p = p\<lparr>rest := dropWhile is_flag (rest p)\<rparr>"

text \<open>\<open>argNum, i, afterIndex = p.argNumber(argNum, format, i, len(a))\<close>\<close>

definition read_index :: "pass \<Rightarrow> pass" where
  "read_index p =
     (case argNumber (rest p) of
        (r, found, cleared) \<Rightarrow>
          p\<lparr>rest := r, afterIndex := found, goodArgNum := (goodArgNum p \<and> \<not> cleared)\<rparr>)"

text \<open>
  Width: a \<open>*\<close> asks for an integer operand, \<open>intFromArg\<close> finds none and
  \<open>badWidthString\<close> is written; otherwise a number is read, and a width right after an
  index clears \<open>goodArgNum\<close>.
\<close>

definition read_width :: "pass \<Rightarrow> pass" where
  "read_width p =
     (if rest p \<noteq> [] \<and> hd (rest p) = CHR ''*''
      then p\<lparr>rest := tl (rest p), buf := buf p @ badWidthString, afterIndex := False\<rparr>
      else
        (case parsenum (rest p) of
           (wid, widPresent, r) \<Rightarrow>
             p\<lparr>rest := r,
               goodArgNum := (goodArgNum p \<and> \<not> (afterIndex p \<and> widPresent))\<rparr>))"

text \<open>
  Precision, after a \<open>.\<close>: right after an index it clears \<open>goodArgNum\<close>; then an index,
  and either a \<open>*\<close> (no integer operand: \<open>badPrecString\<close>) or a number.
\<close>

definition read_precision :: "pass \<Rightarrow> pass" where
  "read_precision p =
     (if rest p \<noteq> [] \<and> hd (rest p) = CHR ''.''
      then
        (let p1 = read_index
               (p\<lparr>rest := tl (rest p), goodArgNum := (goodArgNum p \<and> \<not> afterIndex p)\<rparr>)
         in
           if rest p1 \<noteq> [] \<and> hd (rest p1) = CHR ''*''
           then p1\<lparr>rest := tl (rest p1), buf := buf p1 @ badPrecString, afterIndex := False\<rparr>
           else
             (case parsenum (rest p1) of
                (prec, precPresent, r) \<Rightarrow> p1\<lparr>rest := r\<rparr>))
      else p)"

text \<open>\<open>if !afterIndex { argNum, i, afterIndex = p.argNumber(...) }\<close>\<close>

definition read_late_index :: "pass \<Rightarrow> pass" where
  "read_late_index p = (if \<not> afterIndex p then read_index p else p)"

text \<open>
  The verb: at the end of the format \<open>noVerbString\<close> is written and the loop is left;
  \<open>%\<close> writes a percent sign; any other verb has either a bad index or no operand.
\<close>

definition write_verb :: "pass \<Rightarrow> pass" where
  "write_verb p =
     (if rest p = [] then p\<lparr>buf := buf p @ noVerbString\<rparr>
      else
        (case read_verb (rest p) of
           (verb, r) \<Rightarrow>
             if verb = ''%'' then p\<lparr>rest := r, buf := buf p @ ''%''\<rparr>
             else if \<not> goodArgNum p
             then p\<lparr>rest := r, buf := buf p @ percentBangString @ verb @ badIndexString\<rparr>
             else p\<lparr>rest := r, buf := buf p @ percentBangString @ verb @ missingString\<rparr>))"

text \<open>
  One pass, on the format that follows the \<open>%\<close>: the text written and the rest of the
  format.
\<close>

definition process_verb :: "string \<Rightarrow> string \<times> string" where
  "process_verb format =
     (let p = write_verb (read_late_index (read_precision (read_width (read_index (skip_flags
                \<lparr>buf = [], goodArgNum = True, rest = format, afterIndex = False\<rparr>)))))
      in (buf p, rest p))"

lemma parsenum_loop_length:
  "length (snd (snd (parsenum_loop num isnum s))) \<le> length s"
  by (induction num isnum s rule: parsenum_loop.induct) auto

lemma parsenum_length:
  "parsenum s = (n, b, r) \<Longrightarrow> length r \<le> length s"
  using parsenum_loop_length [of 0 False s] by (simp add: parsenum_def)

lemma argNumber_length:
  "argNumber s = (r, a, b) \<Longrightarrow> length r \<le> length s"
  by (auto simp: argNumber_def split: list.splits if_splits prod.splits)

lemma read_verb_length:
  "s \<noteq> [] \<Longrightarrow> read_verb s = (v, r) \<Longrightarrow> length r < length s"
  by (cases s) (auto simp: read_verb_def DecodeRuneInString_def
      split: if_splits option.splits prod.splits)

lemma skip_flags_length:
  "length (rest (skip_flags p)) \<le> length (rest p)"
  by (simp add: skip_flags_def length_dropWhile_le)

lemma read_index_length:
  "length (rest (read_index p)) \<le> length (rest p)"
  by (auto simp: read_index_def split: prod.splits dest: argNumber_length)

lemma read_width_length:
  "length (rest (read_width p)) \<le> length (rest p)"
  by (auto simp: read_width_def split: prod.splits dest: parsenum_length)

lemma read_precision_length:
  "length (rest (read_precision p)) \<le> length (rest p)"
proof (cases "rest p \<noteq> [] \<and> hd (rest p) = CHR ''.''")
  case False
  then show ?thesis by (auto simp: read_precision_def)
next
  case True
  define q where "q = read_index
    (p\<lparr>rest := tl (rest p), goodArgNum := (goodArgNum p \<and> \<not> afterIndex p)\<rparr>)"
  have q: "length (rest q) \<le> length (rest p)"
    using read_index_length
      [of "p\<lparr>rest := tl (rest p), goodArgNum := (goodArgNum p \<and> \<not> afterIndex p)\<rparr>"]
    by (simp add: q_def)
  have "read_precision p =
      (if rest q \<noteq> [] \<and> hd (rest q) = CHR ''*''
       then q\<lparr>rest := tl (rest q), buf := buf q @ badPrecString, afterIndex := False\<rparr>
       else (case parsenum (rest q) of (prec, precPresent, r) \<Rightarrow> q\<lparr>rest := r\<rparr>))"
    using True by (simp add: read_precision_def q_def Let_def)
  then show ?thesis
    using q by (auto split: prod.splits if_splits dest: parsenum_length)
qed

lemma read_late_index_length:
  "length (rest (read_late_index p)) \<le> length (rest p)"
  by (simp add: read_late_index_def read_index_length)

lemma write_verb_length:
  "length (rest (write_verb p)) \<le> length (rest p)"
  by (auto simp: write_verb_def split: prod.splits dest: read_verb_length)

lemma process_verb_length:
  "length (snd (process_verb s)) \<le> length s"
proof -
  let ?p0 = "\<lparr>buf = [], goodArgNum = True, rest = s, afterIndex = False\<rparr>"
  let ?p1 = "skip_flags ?p0"
  let ?p2 = "read_index ?p1"
  let ?p3 = "read_width ?p2"
  let ?p4 = "read_precision ?p3"
  let ?p5 = "read_late_index ?p4"
  have "length (rest (write_verb ?p5)) \<le> length (rest ?p5)"
    by (rule write_verb_length)
  also have "\<dots> \<le> length (rest ?p4)" by (rule read_late_index_length)
  also have "\<dots> \<le> length (rest ?p3)" by (rule read_precision_length)
  also have "\<dots> \<le> length (rest ?p2)" by (rule read_width_length)
  also have "\<dots> \<le> length (rest ?p1)" by (rule read_index_length)
  also have "\<dots> \<le> length (rest ?p0)" by (rule skip_flags_length)
  finally show ?thesis by (simp add: process_verb_def Let_def)
qed

text \<open>
  \<open>doPrintf(format, a)\<close> with \<open>len(a) = 0\<close>, as the text it leaves in the buffer: bytes
  up to a \<open>%\<close> are copied, and a \<open>%\<close> starts a verb. The final check for extra
  operands finds none.
\<close>

function doPrintf :: "string \<Rightarrow> string" where
  "doPrintf [] = []"
| "doPrintf (c # cs) =
     (if c \<noteq> CHR ''%'' then c # doPrintf cs
      else fst (process_verb cs) @ doPrintf (snd (process_verb cs)))"
  by pat_completeness auto
termination
proof (relation "measure length")
  show "wf (measure length)" by simp
next
  fix c :: char and cs :: string
  show "(cs, c # cs) \<in> measure length" by simp
next
  fix c :: char and cs :: string
  have "length (snd (process_verb cs)) \<le> length cs"
    by (rule process_verb_length)
  then show "(snd (process_verb cs), c # cs) \<in> measure length" by simp
qed

text \<open>\<open>fmt.Fprintf(w, format)\<close> with no operand: the text written to \<open>w\<close>.\<close>

definition Fprintf :: "string \<Rightarrow> string" where
  "Fprintf format = doPrintf format"

section \<open>ReturnCheckResults\<close>

text \<open>
  \<open>ReturnCheckResults\<close> calls four methods of \<open>ExitState\<close> that are not among the
  sources at hand: \<open>handleErrorsSection\<close>, \<open>handleThresholdsSection\<close>,
  \<open>handleLongServiceOutput\<close> and \<open>handlePerformanceData\<close>. Each is handed the state and
  the string builder and adds its section to the builder. They are parameters of the
  model: for each, the text it adds for a given state.
\<close>

record section_writers =
  handleErrorsSection :: "ExitState \<Rightarrow> string"
  handleThresholdsSection :: "ExitState \<Rightarrow> string"
  handleLongServiceOutput :: "ExitState \<Rightarrow> string"
  handlePerformanceData :: "ExitState \<Rightarrow> string"

text \<open>
  What a run of \<open>ReturnCheckResults\<close> leaves behind: the state \<open>*es\<close> at the moment of
  \<open>os.Exit\<close>, the writes to standard output in order, and the code given to \<open>os.Exit\<close>.
\<close>

record process_result =
  final_state :: ExitState
  stdout :: "string list"
  exit_code :: int

text \<open>
  The run takes from its surroundings the value of \<open>recover()\<close> and the result of
  \<open>debug.Stack()\<close>. The recovered value is read only through the \<open>%s\<close> verb (in
  \<open>fmt.Errorf\<close> and in \<open>fmt.Sprintf\<close>), so it is given as its rendering under that
  verb; \<open>None\<close> is \<open>nil\<close>, no panic. \<open>fmt.Sprintf\<close> with \<open>%s\<close> verbs and string
  operands is the concatenation of the pieces. \<open>output\<close> is the string builder.
\<close>

definition ReturnCheckResults ::
  "section_writers \<Rightarrow> string option \<Rightarrow> string \<Rightarrow> ExitState \<Rightarrow> process_result" where
  "ReturnCheckResults sw recovered stackTrace es0 =
     (let es =
        (case recovered of
           None \<Rightarrow> es0
         | Some err \<Rightarrow>
             (let es1 = AddError es0 [Some (Errorf_w_s ErrPanicDetected err)];
                  es2 = es1\<lparr>ServiceOutput := StateCRITICALLabel @
                    '': plugin crash detected. See details via web UI or run plugin manually via CLI.''\<rparr>;
                  es3 = es2\<lparr>LongServiceOutput :=
                    ''```'' @ CheckOutputEOL @ err @ CheckOutputEOL @ CheckOutputEOL @
                    stackTrace @ CheckOutputEOL @ ''```''\<rparr>
              in es3\<lparr>ExitStatusCode := StateCRITICALExitCode\<rparr>));
        output = [];
        output = output @ Fprintf (ServiceOutput es);
        output = output @ handleErrorsSection sw es;
        output = output @ handleThresholdsSection sw es;
        output = output @ handleLongServiceOutput sw es;
        output =
          (case BrandingCallback es of
             None \<Rightarrow> output
           | Some callback \<Rightarrow> output @ CheckOutputEOL @ callback () @ CheckOutputEOL);
        output = output @ handlePerformanceData sw es
      in \<lparr>final_state = es, stdout = [output], exit_code = ExitStatusCode es\<rparr>)"

section \<open>Properties of validation and the mutators\<close>

lemma validate_range_all_valid:
  "list_all (\<lambda>p. Validate p = None) pd \<Longrightarrow> validate_range pd = None"
  by (induction pd) simp_all

lemma validate_range_first_invalid:
  "list_all (\<lambda>q. Validate q = None) pre \<Longrightarrow> Validate p = Some e \<Longrightarrow>
   validate_range (pre @ p # post) = Some e"
  by (induction pre) simp_all

lemma first_invalid_split:
  "\<not> list_all (\<lambda>p. Validate p = None) pd \<Longrightarrow>
   \<exists>pre p post e. pd = pre @ p # post \<and> list_all (\<lambda>q. Validate q = None) pre \<and>
     Validate p = Some e"
proof (induction pd)
  case Nil
  then show ?case by simp
next
  case (Cons a pd)
  show ?case
  proof (cases "Validate a")
    case None
    with Cons.prems have "\<not> list_all (\<lambda>p. Validate p = None) pd" by simp
    from Cons.IH [OF this] obtain pre p post e where
      "pd = pre @ p # post" "list_all (\<lambda>q. Validate q = None) pre" "Validate p = Some e"
      by blast
    with None have "a # pd = (a # pre) @ p # post \<and>
        list_all (\<lambda>q. Validate q = None) (a # pre) \<and> Validate p = Some e"
      by simp
    then show ?thesis by blast
  next
    case (Some e)
    then have "a # pd = [] @ a # pd \<and> list_all (\<lambda>q. Validate q = None) [] \<and>
        Validate a = Some e"
      by simp
    then show ?thesis by blast
  qed
qed

text \<open>
  C5. \<open>Validate\<close> returns the missing-label error when \<open>Label\<close> is the empty string,
  otherwise the missing-value error when \<open>Value\<close> is the empty string, otherwise no
  error. It is a function of the metric alone and returns nothing but the error: the
  receiver is passed by value and no other state is in reach.
\<close>

theorem Validate_result:
  "(Label pd = '''' \<longrightarrow> Validate pd = Some ErrPerformanceDataMissingLabel) \<and>
   (Label pd \<noteq> '''' \<and> Value pd = '''' \<longrightarrow>
      Validate pd = Some ErrPerformanceDataMissingValue) \<and>
   (Label pd \<noteq> '''' \<and> Value pd \<noteq> '''' \<longrightarrow> Validate pd = None)"
  by (simp add: Validate_def)

theorem Validate_result_witness:
  "Validate \<lparr>Label = '''', Value = '''', UnitOfMeasurement = '''', Warn = '''', Crit = '''',
      Min_pd = '''', Max_pd = ''''\<rparr> = Some ErrPerformanceDataMissingLabel \<and>
   Validate \<lparr>Label = ''time'', Value = '''', UnitOfMeasurement = ''ms'', Warn = '''',
      Crit = '''', Min_pd = '''', Max_pd = ''''\<rparr> = Some ErrPerformanceDataMissingValue \<and>
   Validate \<lparr>Label = ''time'', Value = ''12'', UnitOfMeasurement = ''ms'', Warn = '''',
      Crit = '''', Min_pd = '''', Max_pd = ''''\<rparr> = None"
  (is "Validate ?a = _ \<and> Validate ?b = _ \<and> Validate ?c = _")
  using Validate_result [of ?a] Validate_result [of ?b] Validate_result [of ?c]
  by simp

text \<open>
  C3. With an empty batch \<open>AddPerfData\<close> fails with \<open>ErrNoPerformanceDataProvided\<close> and
  the whole \<open>ExitState\<close> is as before, whatever \<open>skipValidate\<close> is.
\<close>

theorem AddPerfData_empty_batch:
  "AddPerfData es skipValidate [] = (Some ErrNoPerformanceDataProvided, es)"
  by (simp add: AddPerfData_def)

text \<open>
  C9. \<open>AddError\<close> with no argument returns normally and leaves the state, and so the
  \<open>Errors\<close> sequence, as it was: there is no empty-batch error.
\<close>

theorem AddError_no_arguments:
  "AddError es [] = es \<and> Errors (AddError es []) = Errors es"
  by (simp add: AddError_def)

text \<open>
  C2. With validation on, a batch that holds a metric failing validation is rejected as
  a whole: the error returned is that of the first failing metric in batch order (every
  metric before it validates), and the state, so also the performance-metric sequence,
  is exactly as before the call.
\<close>

theorem AddPerfData_invalid_batch:
  assumes "\<exists>p \<in> set pd. Validate p \<noteq> None"
  shows "\<exists>pre p post e.
           pd = pre @ p # post \<and>
           (\<forall>q \<in> set pre. Validate q = None) \<and>
           Validate p = Some e \<and>
           AddPerfData es False pd = (Some e, es)"
proof -
  from assms have "\<not> list_all (\<lambda>p. Validate p = None) pd"
    by (auto simp: list_all_iff)
  from first_invalid_split [OF this] obtain pre p post e where
    split: "pd = pre @ p # post" and
    pre: "list_all (\<lambda>q. Validate q = None) pre" and
    bad: "Validate p = Some e"
    by blast
  from pre bad have "validate_range (pre @ p # post) = Some e"
    by (rule validate_range_first_invalid)
  with split have "AddPerfData es False pd = (Some e, es)"
    by (simp add: AddPerfData_def)
  with split pre bad show ?thesis
    unfolding list_all_iff by blast
qed

theorem AddPerfData_invalid_batch_witness:
  "AddPerfData
     \<lparr>LastError = None, Errors = [], ExitStatusCode = 0, ServiceOutput = ''OK'',
      LongServiceOutput = '''',
      perfData = [\<lparr>Label = ''time'', Value = ''12ms'', UnitOfMeasurement = '''', Warn = '''',
        Crit = '''', Min_pd = '''', Max_pd = ''''\<rparr>],
      WarningThreshold = '''', CriticalThreshold = '''', thresholdsLabel = '''',
      errorsLabel = '''', detailedInfoLabel = '''', hideThresholdsSection = False,
      hideErrorsSection = False, BrandingCallback = None\<rparr>
     False
     [\<lparr>Label = ''datacenters'', Value = ''2'', UnitOfMeasurement = '''', Warn = '''',
        Crit = '''', Min_pd = '''', Max_pd = ''''\<rparr>,
      \<lparr>Label = ''alarms'', Value = '''', UnitOfMeasurement = '''', Warn = '''',
        Crit = '''', Min_pd = '''', Max_pd = ''''\<rparr>,
      \<lparr>Label = '''', Value = ''14'', UnitOfMeasurement = '''', Warn = '''',
        Crit = '''', Min_pd = '''', Max_pd = ''''\<rparr>]
   = (Some ErrPerformanceDataMissingValue,
      \<lparr>LastError = None, Errors = [], ExitStatusCode = 0, ServiceOutput = ''OK'',
       LongServiceOutput = '''',
       perfData = [\<lparr>Label = ''time'', Value = ''12ms'', UnitOfMeasurement = '''', Warn = '''',
         Crit = '''', Min_pd = '''', Max_pd = ''''\<rparr>],
       WarningThreshold = '''', CriticalThreshold = '''', thresholdsLabel = '''',
       errorsLabel = '''', detailedInfoLabel = '''', hideThresholdsSection = False,
       hideErrorsSection = False, BrandingCallback = None\<rparr>)"
  (is "AddPerfData ?es False ?pd = (Some ?err, ?es)")
proof -
  have "\<exists>p \<in> set ?pd. Validate p \<noteq> None"
    by (simp add: Validate_def)
  from AddPerfData_invalid_batch [OF this, of ?es] obtain pre p post e where
    split: "?pd = pre @ p # post" and
    pre: "\<forall>q \<in> set pre. Validate q = None" and
    bad: "Validate p = Some e" and
    res: "AddPerfData ?es False ?pd = (Some e, ?es)"
    by blast
  have "e = ?err"
    using res by (simp add: AddPerfData_def Validate_def)
  with res show ?thesis by simp
qed

text \<open>
  C4. A non-empty batch whose metrics all validate, or any non-empty batch when
  validation is skipped, is accepted: no error, and the performance-metric sequence is
  the old one followed by the batch in its order; nothing else changes.
\<close>

theorem AddPerfData_appends_batch:
  assumes "pd \<noteq> []"
    and "skipValidate \<or> (\<forall>p \<in> set pd. Validate p = None)"
  shows "AddPerfData es skipValidate pd = (None, es\<lparr>perfData := perfData es @ pd\<rparr>)"
proof (cases skipValidate)
  case True
  with assms(1) show ?thesis by (simp add: AddPerfData_def)
next
  case False
  with assms(2) have "list_all (\<lambda>p. Validate p = None) pd"
    by (simp add: list_all_iff)
  then have "validate_range pd = None"
    by (rule validate_range_all_valid)
  with assms(1) False show ?thesis by (simp add: AddPerfData_def)
qed

theorem AddPerfData_appends_batch_witness:
  "perfData (snd (AddPerfData
     \<lparr>LastError = None, Errors = [], ExitStatusCode = 0, ServiceOutput = ''OK'',
      LongServiceOutput = '''',
      perfData = [\<lparr>Label = ''time'', Value = ''12ms'', UnitOfMeasurement = '''', Warn = '''',
        Crit = '''', Min_pd = '''', Max_pd = ''''\<rparr>],
      WarningThreshold = '''', CriticalThreshold = '''', thresholdsLabel = '''',
      errorsLabel = '''', detailedInfoLabel = '''', hideThresholdsSection = False,
      hideErrorsSection = False, BrandingCallback = None\<rparr>
     False
     [\<lparr>Label = ''datacenters'', Value = ''2'', UnitOfMeasurement = '''', Warn = '''',
        Crit = '''', Min_pd = '''', Max_pd = ''''\<rparr>,
      \<lparr>Label = ''triggered_alarms'', Value = ''14'', UnitOfMeasurement = '''', Warn = '''',
        Crit = '''', Min_pd = '''', Max_pd = ''''\<rparr>]))
   = [\<lparr>Label = ''time'', Value = ''12ms'', UnitOfMeasurement = '''', Warn = '''',
        Crit = '''', Min_pd = '''', Max_pd = ''''\<rparr>,
      \<lparr>Label = ''datacenters'', Value = ''2'', UnitOfMeasurement = '''', Warn = '''',
        Crit = '''', Min_pd = '''', Max_pd = ''''\<rparr>,
      \<lparr>Label = ''triggered_alarms'', Value = ''14'', UnitOfMeasurement = '''', Warn = '''',
        Crit = '''', Min_pd = '''', Max_pd = ''''\<rparr>]"
  (is "perfData (snd (AddPerfData ?es False ?pd)) = _")
proof -
  have ne: "?pd \<noteq> []" by simp
  have ok: "False \<or> (\<forall>p \<in> set ?pd. Validate p = None)"
    by (simp add: Validate_def)
  show ?thesis
    using AddPerfData_appends_batch [OF ne ok, of ?es] by simp
qed

text \<open>
  C10. \<open>AddPerfData\<close> writes no field but \<open>perfData\<close>: for every batch and either value
  of \<open>skipValidate\<close>, on success and on failure, every other field of the state after
  the call is the field before it.
\<close>

theorem AddPerfData_frame:
  "LastError (snd (AddPerfData es skipValidate pd)) = LastError es \<and>
   Errors (snd (AddPerfData es skipValidate pd)) = Errors es \<and>
   ExitStatusCode (snd (AddPerfData es skipValidate pd)) = ExitStatusCode es \<and>
   ServiceOutput (snd (AddPerfData es skipValidate pd)) = ServiceOutput es \<and>
   LongServiceOutput (snd (AddPerfData es skipValidate pd)) = LongServiceOutput es \<and>
   WarningThreshold (snd (AddPerfData es skipValidate pd)) = WarningThreshold es \<and>
   CriticalThreshold (snd (AddPerfData es skipValidate pd)) = CriticalThreshold es \<and>
   thresholdsLabel (snd (AddPerfData es skipValidate pd)) = thresholdsLabel es \<and>
   errorsLabel (snd (AddPerfData es skipValidate pd)) = errorsLabel es \<and>
   detailedInfoLabel (snd (AddPerfData es skipValidate pd)) = detailedInfoLabel es \<and>
   hideThresholdsSection (snd (AddPerfData es skipValidate pd)) = hideThresholdsSection es \<and>
   hideErrorsSection (snd (AddPerfData es skipValidate pd)) = hideErrorsSection es \<and>
   BrandingCallback (snd (AddPerfData es skipValidate pd)) = BrandingCallback es \<and>
   snd (AddPerfData es skipValidate pd) =
     es\<lparr>perfData := perfData (snd (AddPerfData es skipValidate pd))\<rparr>"
  by (simp add: AddPerfData_def split: option.split)

section \<open>Properties of ReturnCheckResults\<close>

text \<open>
  A format without a percent sign is written as it is.
\<close>

lemma doPrintf_literal: "CHR ''%'' \<notin> set s \<Longrightarrow> doPrintf s = s"
  by (induction s) auto

lemma Fprintf_crash_summary:
  "Fprintf ''CRITICAL: plugin crash detected. See details via web UI or run plugin manually via CLI.'' =
    ''CRITICAL: plugin crash detected. See details via web UI or run plugin manually via CLI.''"
  unfolding Fprintf_def by (rule doPrintf_literal) simp

lemma Fprintf_disk_full:
  "Fprintf ''OK: disk 100% full'' = ''OK: disk 100%!f(MISSING)ull''"
  unfolding Fprintf_def by code_simp

lemma Fprintf_all_good:
  "Fprintf ''OK: all good'' = ''OK: all good''"
  unfolding Fprintf_def by (rule doPrintf_literal) simp

text \<open>
  C1. When \<open>recover()\<close> reports a panic, then before anything is rendered the run
  appends to \<open>Errors\<close> an error that wraps \<open>ErrPanicDetected\<close> and carries the panic's
  message, and overwrites \<open>ServiceOutput\<close> with the fixed CRITICAL summary,
  \<open>LongServiceOutput\<close> with a fenced block holding the panic's message and the stack
  trace, each followed by the end-of-line token, and \<open>ExitStatusCode\<close> with 2. None of
  the three new values depends on what the caller had set. The sections are rendered
  from the state so overwritten, the summary line is the fixed text, and the process
  exits with 2. The stack trace is what \<open>debug.Stack()\<close> returns; that it is not empty
  is assumed of the runtime.
\<close>

theorem ReturnCheckResults_panic_override:
  fixes sw err stackTrace es
  assumes "stackTrace \<noteq> []"
  defines "r \<equiv> ReturnCheckResults sw (Some err) stackTrace es"
  shows "Errors (final_state r) =
       Errors es @ [Some (wrapError (''plugin crash/panic detected: '' @ err) ErrPanicDetected)] \<and>
     errors_Is (wrapError (''plugin crash/panic detected: '' @ err) ErrPanicDetected)
       ErrPanicDetected \<and>
     ServiceOutput (final_state r) =
       ''CRITICAL: plugin crash detected. See details via web UI or run plugin manually via CLI.'' \<and>
     LongServiceOutput (final_state r) =
       ''```'' @ CheckOutputEOL @ err @ CheckOutputEOL @ CheckOutputEOL @
       stackTrace @ CheckOutputEOL @ ''```'' \<and>
     ExitStatusCode (final_state r) = 2 \<and>
     exit_code r = 2 \<and>
     stdout r =
       [''CRITICAL: plugin crash detected. See details via web UI or run plugin manually via CLI.'' @
        handleErrorsSection sw (final_state r) @
        handleThresholdsSection sw (final_state r) @
        handleLongServiceOutput sw (final_state r) @
        (case BrandingCallback es of
           None \<Rightarrow> []
         | Some callback \<Rightarrow> CheckOutputEOL @ callback () @ CheckOutputEOL) @
        handlePerformanceData sw (final_state r)]"
  unfolding r_def ReturnCheckResults_def Let_def
  by (simp add: AddError_def Errorf_w_s_def StateCRITICALLabel_def StateCRITICALExitCode_def
      Fprintf_crash_summary split: option.split)

theorem ReturnCheckResults_panic_override_witness:
  "final_state (ReturnCheckResults
     \<lparr>handleErrorsSection = (\<lambda>es. ''[errors]''),
      handleThresholdsSection = (\<lambda>es. ''[thresholds]''),
      handleLongServiceOutput = (\<lambda>es. LongServiceOutput es),
      handlePerformanceData = (\<lambda>es. ''[perf]'')\<rparr>
     (Some ''boom'')
     ''goroutine 1 [running]:''
     \<lparr>LastError = None, Errors = [Some (errorString ''timeout'')], ExitStatusCode = 0,
      ServiceOutput = ''OK: all good'', LongServiceOutput = ''42 items checked'',
      perfData = [], WarningThreshold = '''', CriticalThreshold = '''',
      thresholdsLabel = '''', errorsLabel = '''', detailedInfoLabel = '''',
      hideThresholdsSection = False, hideErrorsSection = False, BrandingCallback = None\<rparr>)
   = \<lparr>LastError = None,
      Errors = [Some (errorString ''timeout''),
        Some (wrapError ''plugin crash/panic detected: boom'' ErrPanicDetected)],
      ExitStatusCode = 2,
      ServiceOutput =
        ''CRITICAL: plugin crash detected. See details via web UI or run plugin manually via CLI.'',
      LongServiceOutput =
        ''``` \<newline>boom \<newline> \<newline>goroutine 1 [running]: \<newline>```'',
      perfData = [], WarningThreshold = '''', CriticalThreshold = '''',
      thresholdsLabel = '''', errorsLabel = '''', detailedInfoLabel = '''',
      hideThresholdsSection = False, hideErrorsSection = False, BrandingCallback = None\<rparr>"
  (is "final_state (ReturnCheckResults ?sw (Some ?err) ?stack ?es) = _")
proof -
  have ne: "?stack \<noteq> []" by simp
  have frame: "final_state (ReturnCheckResults ?sw (Some ?err) ?stack ?es) =
      ?es\<lparr>Errors := Errors (final_state (ReturnCheckResults ?sw (Some ?err) ?stack ?es)),
        ServiceOutput := ServiceOutput (final_state (ReturnCheckResults ?sw (Some ?err) ?stack ?es)),
        LongServiceOutput := LongServiceOutput (final_state (ReturnCheckResults ?sw (Some ?err) ?stack ?es)),
        ExitStatusCode := ExitStatusCode (final_state (ReturnCheckResults ?sw (Some ?err) ?stack ?es))\<rparr>"
    by (simp add: ReturnCheckResults_def AddError_def)
  show ?thesis
    using ReturnCheckResults_panic_override [OF ne, where es = "?es" and err = "?err" and sw = "?sw"]
    by (subst frame) (simp add: CheckOutputEOL_def)
qed

text \<open>
  C6. The summary line is meant to be \<open>ServiceOutput\<close> as it is, with no formatting
  verb read in it (so says the comment above the statement). The statement passes
  \<open>ServiceOutput\<close> to \<open>fmt.Fprintf\<close> as the format, though: for the summary
  \<open>OK: disk 100% full\<close>, with no panic and nothing else to render, what is written is
  \<open>OK: disk 100%!f(MISSING)ull\<close>.
\<close>

theorem ReturnCheckResults_summary_as_format:
  "stdout (ReturnCheckResults
     \<lparr>handleErrorsSection = (\<lambda>es. ''''),
      handleThresholdsSection = (\<lambda>es. ''''),
      handleLongServiceOutput = (\<lambda>es. ''''),
      handlePerformanceData = (\<lambda>es. '''')\<rparr>
     None ''''
     \<lparr>LastError = None, Errors = [], ExitStatusCode = 0,
      ServiceOutput = ''OK: disk 100% full'', LongServiceOutput = '''',
      perfData = [], WarningThreshold = '''', CriticalThreshold = '''',
      thresholdsLabel = '''', errorsLabel = '''', detailedInfoLabel = '''',
      hideThresholdsSection = False, hideErrorsSection = False,
      BrandingCallback = None\<rparr>)
   = [''OK: disk 100%!f(MISSING)ull''] \<and>
   Fprintf ''OK: disk 100% full'' \<noteq> ''OK: disk 100% full''"
  by (simp add: ReturnCheckResults_def Fprintf_disk_full)

text \<open>
  C7. With a branding callback set, the text written is the summary line and the
  errors, thresholds and long-output sections, then the end-of-line token, the
  callback's result and the end-of-line token again, then the performance-data section.
  With no callback, the performance-data section follows the long-output section
  directly.
\<close>

theorem ReturnCheckResults_branding:
  fixes sw recovered stackTrace es callback
  defines "r \<equiv> ReturnCheckResults sw recovered stackTrace es"
  defines "before \<equiv>
     Fprintf (ServiceOutput (final_state r)) @
     handleErrorsSection sw (final_state r) @
     handleThresholdsSection sw (final_state r) @
     handleLongServiceOutput sw (final_state r)"
  shows "(BrandingCallback es = Some callback \<longrightarrow>
        stdout r =
          [before @ (CheckOutputEOL @ callback () @ CheckOutputEOL) @
           handlePerformanceData sw (final_state r)]) \<and>
     (BrandingCallback es = None \<longrightarrow>
        stdout r = [before @ handlePerformanceData sw (final_state r)])"
  unfolding before_def r_def ReturnCheckResults_def Let_def
  by (simp add: AddError_def split: option.split)

theorem ReturnCheckResults_branding_witness:
  "stdout (ReturnCheckResults
     \<lparr>handleErrorsSection = (\<lambda>es. ''[errors]''),
      handleThresholdsSection = (\<lambda>es. ''[thresholds]''),
      handleLongServiceOutput = (\<lambda>es. ''[long output]''),
      handlePerformanceData = (\<lambda>es. ''[performance data]'')\<rparr>
     None ''''
     \<lparr>LastError = None, Errors = [], ExitStatusCode = 0,
      ServiceOutput = ''OK: all good'', LongServiceOutput = '''',
      perfData = [], WarningThreshold = '''', CriticalThreshold = '''',
      thresholdsLabel = '''', errorsLabel = '''', detailedInfoLabel = '''',
      hideThresholdsSection = False, hideErrorsSection = False,
      BrandingCallback = Some (\<lambda>u. ''MyPlugin v1.0'')\<rparr>)
   = [''OK: all good[errors][thresholds][long output] \<newline>MyPlugin v1.0 \<newline>[performance data]''] \<and>
   stdout (ReturnCheckResults
     \<lparr>handleErrorsSection = (\<lambda>es. ''[errors]''),
      handleThresholdsSection = (\<lambda>es. ''[thresholds]''),
      handleLongServiceOutput = (\<lambda>es. ''[long output]''),
      handlePerformanceData = (\<lambda>es. ''[performance data]'')\<rparr>
     None ''''
     \<lparr>LastError = None, Errors = [], ExitStatusCode = 0,
      ServiceOutput = ''OK: all good'', LongServiceOutput = '''',
      perfData = [], WarningThreshold = '''', CriticalThreshold = '''',
      thresholdsLabel = '''', errorsLabel = '''', detailedInfoLabel = '''',
      hideThresholdsSection = False, hideErrorsSection = False,
      BrandingCallback = None\<rparr>)
   = [''OK: all good[errors][thresholds][long output][performance data]'']"
  (is "stdout (ReturnCheckResults ?sw None ?stack ?es1) = _ \<and>
       stdout (ReturnCheckResults ?sw None ?stack ?es2) = _")
proof -
  have fs1: "final_state (ReturnCheckResults ?sw None ?stack ?es1) = ?es1"
    and fs2: "final_state (ReturnCheckResults ?sw None ?stack ?es2) = ?es2"
    by (simp_all add: ReturnCheckResults_def)
  have with_hook: "stdout (ReturnCheckResults ?sw None ?stack ?es1) =
      [''OK: all good[errors][thresholds][long output] \<newline>MyPlugin v1.0 \<newline>[performance data]'']"
    using ReturnCheckResults_branding [where es = "?es1" and callback = "\<lambda>u. ''MyPlugin v1.0''" and sw = "?sw" and recovered = None and stackTrace = "?stack"]
    unfolding fs1 by (simp add: Fprintf_all_good CheckOutputEOL_def)
  have without_hook: "stdout (ReturnCheckResults ?sw None ?stack ?es2) =
      [''OK: all good[errors][thresholds][long output][performance data]'']"
    using ReturnCheckResults_branding [where es = "?es2" and sw = "?sw" and recovered = None and stackTrace = "?stack"]
    unfolding fs2 by (simp add: Fprintf_all_good)
  from with_hook without_hook show ?thesis by (rule conjI)
qed


end
